theory Spec2Isabelle
  imports Main "HOL-Library.Char_ord" "HOL-Library.List_Lexorder"
begin

section \<open>Python values used by the converter\<close>

text \<open>
  The converter (\<^verbatim>\<open>src/superslicer_to_orca.py\<close>) works on Python strings, lists of strings
  and insertion-ordered dictionaries. A string is modelled as a \<^typ>\<open>string\<close> whose
  characters are code points below 256 (ASCII and Latin-1); a dictionary is an association
  list with distinct keys that keeps insertion order, as a Python \<^verbatim>\<open>dict\<close> does.
\<close>

type_synonym ('k, 'v) pydict = "('k \<times> 'v) list"

text \<open>\<^verbatim>\<open>d[k] = v\<close>: an existing key keeps its place, a new key goes to the end.\<close>

primrec dict_set :: "'k \<Rightarrow> 'v \<Rightarrow> ('k, 'v) pydict \<Rightarrow> ('k, 'v) pydict" where
  "dict_set k v [] = [(k, v)]"
| "dict_set k v (p # ps) = (if fst p = k then (k, v) # ps else p # dict_set k v ps)"

text \<open>\<^verbatim>\<open>d.get(k)\<close>, with \<^const>\<open>None\<close> for Python's \<^verbatim>\<open>None\<close>.\<close>

definition dict_get :: "('k, 'v) pydict \<Rightarrow> 'k \<Rightarrow> 'v option" where
  "dict_get d k = map_of d k"

text \<open>\<^verbatim>\<open>d.get(k, default)\<close>.\<close>

definition dict_get_default :: "('k, 'v) pydict \<Rightarrow> 'k \<Rightarrow> 'v \<Rightarrow> 'v" where
  "dict_get_default d k dflt = (case map_of d k of Some v \<Rightarrow> v | None \<Rightarrow> dflt)"

text \<open>\<^verbatim>\<open>k in d\<close>.\<close>

definition dict_has :: "'k \<Rightarrow> ('k, 'v) pydict \<Rightarrow> bool" where
  "dict_has k d = (k \<in> set (map fst d))"

subsection \<open>Characters and strings\<close>

text \<open>
  \<^verbatim>\<open>str.isspace\<close> on one character, which is also what the regular expression class
  \<^verbatim>\<open>\s\<close> matches: tab, line feed, vertical tab, form feed, carriage return, the four
  separators 0x1C-0x1F, space, next line (0x85) and no-break space (0xA0).
\<close>

definition whitespace_chars :: "char list" where
  "whitespace_chars =
     [CHR 0x09, CHR 0x0A, CHR 0x0B, CHR 0x0C, CHR 0x0D, CHR 0x1C, CHR 0x1D, CHR 0x1E,
      CHR 0x1F, CHR 0x20, CHR 0x85, CHR 0xA0]"

definition py_isspace :: "char \<Rightarrow> bool" where
  "py_isspace c = (c \<in> set whitespace_chars)"

text \<open>
  \<^verbatim>\<open>str.lower\<close>: the ASCII capitals and the Latin-1 capitals 0xC0-0xDE (without the
  multiplication sign 0xD7) move to their small letters, every other character stays.
\<close>

definition upper_chars :: "char list" where
  "upper_chars = ''ABCDEFGHIJKLMNOPQRSTUVWXYZ'' @
     [CHR 0xC0, CHR 0xC1, CHR 0xC2, CHR 0xC3, CHR 0xC4, CHR 0xC5, CHR 0xC6, CHR 0xC7,
      CHR 0xC8, CHR 0xC9, CHR 0xCA, CHR 0xCB, CHR 0xCC, CHR 0xCD, CHR 0xCE, CHR 0xCF,
      CHR 0xD0, CHR 0xD1, CHR 0xD2, CHR 0xD3, CHR 0xD4, CHR 0xD5, CHR 0xD6, CHR 0xD8,
      CHR 0xD9, CHR 0xDA, CHR 0xDB, CHR 0xDC, CHR 0xDD, CHR 0xDE]"

definition lower_chars :: "char list" where
  "lower_chars = ''abcdefghijklmnopqrstuvwxyz'' @
     [CHR 0xE0, CHR 0xE1, CHR 0xE2, CHR 0xE3, CHR 0xE4, CHR 0xE5, CHR 0xE6, CHR 0xE7,
      CHR 0xE8, CHR 0xE9, CHR 0xEA, CHR 0xEB, CHR 0xEC, CHR 0xED, CHR 0xEE, CHR 0xEF,
      CHR 0xF0, CHR 0xF1, CHR 0xF2, CHR 0xF3, CHR 0xF4, CHR 0xF5, CHR 0xF6, CHR 0xF8,
      CHR 0xF9, CHR 0xFA, CHR 0xFB, CHR 0xFC, CHR 0xFD, CHR 0xFE]"

definition lower_char :: "char \<Rightarrow> char" where
  "lower_char c = (case map_of (zip upper_chars lower_chars) c of Some l \<Rightarrow> l | None \<Rightarrow> c)"

definition py_lower :: "string \<Rightarrow> string" where
  "py_lower s = map lower_char s"

text \<open>\<^verbatim>\<open>s.lstrip()\<close>, \<^verbatim>\<open>s.rstrip()\<close> and \<^verbatim>\<open>s.strip()\<close> without arguments.\<close>

definition py_lstrip :: "string \<Rightarrow> string" where
  "py_lstrip s = dropWhile py_isspace s"

definition py_rstrip :: "string \<Rightarrow> string" where
  "py_rstrip s = rev (dropWhile py_isspace (rev s))"

definition py_strip :: "string \<Rightarrow> string" where
  "py_strip s = py_rstrip (py_lstrip s)"

section \<open>The static tables\<close>

text \<open>
  A value of \<^verbatim>\<open>PARAMETER_MAP\<close> is a single target key, a list of target keys, or the
  constant \<^verbatim>\<open>True\<close> (the \<^verbatim>\<open>physical_printer\<close> table).
\<close>

datatype target = Single string | Multi "string list" | PassThrough

definition PARAMETER_MAP_print :: "(string \<times> target) list" where
  "PARAMETER_MAP_print = [
    (''arc_fitting'', Single ''enable_arc_fitting''),
    (''bottom_solid_layers'', Single ''bottom_shell_layers''),
    (''bottom_solid_min_thickness'', Single ''bottom_shell_thickness''),
    (''bridge_acceleration'', Single ''bridge_acceleration''),
    (''bridge_angle'', Single ''bridge_angle''),
    (''bridge_overlap_min'', Single ''bridge_density''),
    (''dont_support_bridges'', Single ''bridge_no_support''),
    (''bridge_speed_internal'', Single ''internal_bridge_speed''),
    (''brim_ears'', Single ''brim_ears''),
    (''brim_ears_detection_length'', Single ''brim_ears_detection_length''),
    (''brim_ears_max_angle'', Single ''brim_ears_max_angle''),
    (''brim_separation'', Single ''brim_object_gap''), (''brim_width'', Single ''brim_width''),
    (''brim_speed'', Single ''skirt_speed''),
    (''compatible_printers_condition'', Single ''compatible_printers_condition''),
    (''compatible_printers'', Single ''compatible_printers''),
    (''default_acceleration'', Single ''default_acceleration''),
    (''overhangs'', Single ''detect_overhang_wall''),
    (''thin_walls'', Single ''detect_thin_wall''), (''draft_shield'', Single ''draft_shield''),
    (''first_layer_size_compensation'', Single ''elefant_foot_compensation''),
    (''elefant_foot_compensation'', Single ''elefant_foot_compensation''),
    (''enable_dynamic_overhang_speeds'', Single ''enable_overhang_speed''),
    (''extra_perimeters_on_overhangs'', Single ''extra_perimeters_on_overhangs''),
    (''extra_perimeters_odd_layers'', Single ''alternate_extra_wall''),
    (''wipe_tower'', Single ''enable_prime_tower''), (''wipe_speed'', Single ''wipe_speed''),
    (''ensure_vertical_shell_thickness'', Single ''ensure_vertical_shell_thickness''),
    (''gap_fill_min_length'', Single ''filter_out_gap_fill''),
    (''gcode_comments'', Single ''gcode_comments''),
    (''gcode_label_objects'', Single ''gcode_label_objects''),
    (''machine_limits_usage'', Single ''emit_machine_limits_to_gcode''),
    (''infill_anchor_max'', Single ''infill_anchor_max''),
    (''infill_anchor'', Single ''infill_anchor''),
    (''fill_angle'', Single ''infill_direction''),
    (''infill_overlap'', Single ''infill_wall_overlap''),
    (''infill_first'', Single ''is_infill_first''), (''inherits'', Single ''inherits''),
    (''extrusion_width'', Single ''line_width''),
    (''extrusion_multiplier'', Single ''print_flow_ratio''),
    (''first_layer_acceleration'', Single ''initial_layer_acceleration''),
    (''first_layer_extrusion_width'', Single ''initial_layer_line_width''),
    (''first_layer_height'', Single ''initial_layer_print_height''),
    (''interface_shells'', Single ''interface_shells''),
    (''perimeter_extrusion_width'', Single ''inner_wall_line_width''),
    (''seam_gap'', Single ''seam_gap''),
    (''solid_infill_acceleration'', Single ''internal_solid_infill_acceleration''),
    (''solid_infill_extrusion_width'', Single ''internal_solid_infill_line_width''),
    (''ironing_flowrate'', Single ''ironing_flow''),
    (''ironing_spacing'', Single ''ironing_spacing''),
    (''ironing_speed'', Single ''ironing_speed''), (''layer_height'', Single ''layer_height''),
    (''init_z_rotate'', Single ''preferred_orientation''),
    (''spiral_vase'', Single ''spiral_mode''),
    (''solid_infill_extruder'', Single ''solid_infill_filament''),
    (''support_material_extruder'', Single ''support_filament''),
    (''infill_extruder'', Single ''sparse_infill_filament''),
    (''perimeter_extruder'', Single ''wall_filament''),
    (''first_layer_extruder'', Single ''first_layer_filament''),
    (''support_material_interface_extruder'', Single ''support_interface_filament''),
    (''avoid_crossing_perimeters_max_detour'', Single ''max_travel_detour_distance''),
    (''min_bead_width'', Single ''min_bead_width''),
    (''min_feature_size'', Single ''min_feature_size''),
    (''solid_infill_below_area'', Single ''minimum_sparse_infill_area''),
    (''only_one_perimeter_first_layer'', Single ''only_one_wall_first_layer''),
    (''only_one_perimeter_top'', Single ''only_one_wall_top''),
    (''ooze_prevention'', Single ''ooze_prevention''),
    (''extra_perimeters_overhangs'', Single ''extra_perimeters_on_overhangs''),
    (''overhangs_reverse'', Single ''overhang_reverse''),
    (''overhangs_reverse_threshold'', Single ''overhang_reverse_threshold''),
    (''perimeter_acceleration'', Single ''inner_wall_acceleration''),
    (''external_perimeter_acceleration'', Single ''outer_wall_acceleration''),
    (''external_perimeter_extrusion_width'', Single ''outer_wall_line_width''),
    (''post_process'', Single ''post_process''),
    (''wipe_tower_brim_width'', Single ''prime_tower_brim_width''),
    (''wipe_tower_width'', Single ''prime_tower_width''),
    (''raft_contact_distance'', Single ''raft_contact_distance''),
    (''raft_expansion'', Single ''raft_expansion''),
    (''raft_first_layer_density'', Single ''raft_first_layer_density''),
    (''raft_first_layer_expansion'', Single ''raft_first_layer_expansion''),
    (''raft_layers'', Single ''raft_layers''),
    (''avoid_crossing_perimeters'', Single ''reduce_crossing_wall''),
    (''only_retract_when_crossing_perimeters'', Single ''reduce_infill_retraction''),
    (''resolution'', Single ''resolution''), (''seam_position'', Single ''seam_position''),
    (''skirt_distance'', Single ''skirt_distance''),
    (''skirt_height'', Single ''skirt_height''), (''skirts'', Single ''skirt_loops''),
    (''slice_closing_radius'', Single ''slice_closing_radius''),
    (''slicing_mode'', Single ''slicing_mode''),
    (''small_perimeter_min_length'', Single ''small_perimeter_threshold''),
    (''infill_acceleration'', Single ''sparse_infill_acceleration''),
    (''fill_density'', Single ''sparse_infill_density''),
    (''infill_extrusion_width'', Single ''sparse_infill_line_width''),
    (''staggered_inner_seams'', Single ''staggered_inner_seams''),
    (''standby_temperature_delta'', Single ''standby_temperature_delta''),
    (''hole_to_polyhole'', Single ''hole_to_polyhole''),
    (''hole_to_polyhole_threshold'', Single ''hole_to_polyhole_threshold''),
    (''hole_to_polyhole_twisted'', Single ''hole_to_polyhole_twisted''),
    (''support_material'', Single ''enable_support''),
    (''support_material_angle'', Single ''support_angle''),
    (''support_material_enforce_layers'', Single ''enforce_support_layers''),
    (''support_material_spacing'', Single ''support_base_pattern_spacing''),
    (''support_material_contact_distance'', Single ''support_top_z_distance''),
    (''first_layer_size_compensation_layers'', Single ''elefant_foot_compensation_layers''),
    (''support_material_bottom_contact_distance'', Single ''support_bottom_z_distance''),
    (''support_material_bottom_interface_layers'', Single ''support_interface_bottom_layers''),
    (''support_material_interface_contact_loops'', Single ''support_interface_loop_pattern''),
    (''support_material_interface_spacing'', Single ''support_interface_spacing''),
    (''support_material_interface_layers'', Single ''support_interface_top_layers''),
    (''support_material_extrusion_width'', Single ''support_line_width''),
    (''support_material_buildplate_only'', Single ''support_on_build_plate_only''),
    (''support_material_threshold'', Single ''support_threshold_angle''),
    (''thick_bridges'', Single ''thick_bridges''),
    (''top_solid_layers'', Single ''top_shell_layers''),
    (''top_solid_min_thickness'', Single ''top_shell_thickness''),
    (''top_solid_infill_acceleration'', Single ''top_surface_acceleration''),
    (''top_infill_extrusion_width'', Single ''top_surface_line_width''),
    (''min_width_top_surface'', Single ''min_width_top_surface''),
    (''travel_acceleration'', Single ''travel_acceleration''),
    (''travel_speed_z'', Single ''travel_speed_z''),
    (''travel_speed'', Single ''travel_speed''),
    (''support_tree_angle'', Single ''tree_support_branch_angle''),
    (''support_tree_angle_slow'', Single ''tree_support_angle_slow''),
    (''support_tree_branch_diameter'', Single ''tree_support_branch_diameter''),
    (''support_tree_branch_diameter_angle'', Single ''tree_support_branch_diameter_angle''),
    (''support_tree_branch_diameter_double_wall'', Single ''tree_support_branch_diameter_double_wall''),
    (''support_tree_tip_diameter'', Single ''tree_support_tip_diameter''),
    (''support_tree_top_rate'', Single ''tree_support_top_rate''),
    (''wall_distribution_count'', Single ''wall_distribution_count''),
    (''perimeter_generator'', Single ''wall_generator''),
    (''perimeters'', Single ''wall_loops''),
    (''wall_transition_angle'', Single ''wall_transition_angle''),
    (''wall_transition_filter_deviation'', Single ''wall_transition_filter_deviation''),
    (''wall_transition_length'', Single ''wall_transition_length''),
    (''wipe_tower_no_sparse_layers'', Single ''wipe_tower_no_sparse_layers''),
    (''xy_size_compensation'', Single ''xy_contour_compensation''),
    (''z_offset'', Single ''z_offset''),
    (''xy_inner_size_compensation'', Single ''xy_hole_compensation''),
    (''support_material_layer_height'', Single ''independent_support_layer_height''),
    (''fill_pattern'', Single ''sparse_infill_pattern''),
    (''solid_fill_pattern'', Single ''internal_solid_infill_pattern''),
    (''output_filename_format'', Single ''filename_format''),
    (''support_material_pattern'', Single ''support_base_pattern''),
    (''support_material_interface_pattern'', Single ''support_interface_pattern''),
    (''top_fill_pattern'', Single ''top_surface_pattern''),
    (''support_material_xy_spacing'', Single ''support_object_xy_distance''),
    (''fuzzy_skin_point_dist'', Single ''fuzzy_skin_point_distance''),
    (''fuzzy_skin_thickness'', Single ''fuzzy_skin_thickness''),
    (''fuzzy_skin'', Single ''fuzzy_skin''),
    (''bottom_fill_pattern'', Single ''bottom_surface_pattern''),
    (''bridge_flow_ratio'', Single ''bridge_flow''),
    (''fill_top_flow_ratio'', Single ''top_solid_infill_flow_ratio''),
    (''first_layer_flow_ratio'', Single ''bottom_solid_infill_flow_ratio''),
    (''infill_every_layers'', Single ''infill_combination''),
    (''complete_objects'', Single ''print_sequence''), (''brim_type'', Single ''brim_type''),
    (''notes'', Single ''notes''), (''support_material_style'', Single ''support_style''),
    (''ironing'', Single ''ironing''), (''ironing_type'', Single ''ironing_type''),
    (''ironing_angle'', Single ''ironing_angle''),
    (''external_perimeters_first'', Single ''external_perimeters_first''),
    (''remaining_times'', Single ''disable_m73'')]"

definition PARAMETER_MAP_filament :: "(string \<times> target) list" where
  "PARAMETER_MAP_filament = [
    (''bed_temperature'', Multi [''hot_plate_temp'', ''cool_plate_temp'', ''eng_plate_temp'', ''textured_plate_temp'']),
    (''bridge_fan_speed'', Single ''overhang_fan_speed''),
    (''chamber_temperature'', Single ''chamber_temperature''),
    (''disable_fan_first_layers'', Single ''close_fan_the_first_x_layers''),
    (''end_filament_gcode'', Single ''filament_end_gcode''),
    (''external_perimeter_fan_speed'', Single ''overhang_fan_threshold''),
    (''extrusion_multiplier'', Single ''filament_flow_ratio''),
    (''fan_always_on'', Single ''reduce_fan_stop_start_freq''),
    (''fan_below_layer_time'', Single ''fan_cooling_layer_time''),
    (''fan_speedup_time'', Single ''fan_speedup_time''),
    (''fan_speedup_overhangs'', Single ''fan_speedup_overhangs''),
    (''fan_kickstart'', Single ''fan_kickstart''),
    (''filament_colour'', Single ''default_filament_colour''),
    (''filament_cost'', Single ''filament_cost''),
    (''filament_density'', Single ''filament_density''),
    (''filament_deretract_speed'', Single ''filament_deretraction_speed''),
    (''filament_diameter'', Single ''filament_diameter''),
    (''filament_max_volumetric_speed'', Single ''filament_max_volumetric_speed''),
    (''filament_notes'', Single ''filament_notes''),
    (''filament_retract_before_travel'', Single ''filament_retraction_minimum_travel''),
    (''filament_retract_before_wipe'', Single ''filament_retract_before_wipe''),
    (''filament_retract_layer_change'', Single ''filament_retract_when_changing_layer''),
    (''filament_retract_length'', Single ''filament_retraction_length''),
    (''filament_retract_lift'', Single ''filament_z_hop''),
    (''filament_retract_lift_above'', Single ''filament_retract_lift_above''),
    (''filament_retract_lift_below'', Single ''filament_retract_lift_below''),
    (''filament_retract_restart_extra'', Single ''filament_retract_restart_extra''),
    (''filament_retract_speed'', Single ''filament_retraction_speed''),
    (''filament_shrink'', Single ''filament_shrink''),
    (''filament_soluble'', Single ''filament_soluble''),
    (''filament_type'', Single ''filament_type''),
    (''filament_wipe'', Single ''filament_wipe''),
    (''first_layer_bed_temperature'', Multi [''hot_plate_temp_initial_layer'', ''cool_plate_temp_initial_layer'', ''eng_plate_temp_initial_layer'', ''textured_plate_temp_initial_layer'']),
    (''first_layer_temperature'', Single ''nozzle_temperature_initial_layer''),
    (''full_fan_speed_layer'', Single ''full_fan_speed_layer''),
    (''inherits'', Single ''inherits''), (''max_fan_speed'', Single ''fan_max_speed''),
    (''min_fan_speed'', Single ''fan_min_speed''),
    (''min_print_speed'', Single ''slow_down_min_speed''),
    (''slowdown_below_layer_time'', Single ''slow_down_layer_time''),
    (''start_filament_gcode'', Single ''filament_start_gcode''),
    (''support_material_interface_fan_speed'', Single ''support_material_interface_fan_speed''),
    (''temperature'', Single ''nozzle_temperature''),
    (''compatible_printers_condition'', Single ''compatible_printers_condition''),
    (''compatible_printers'', Single ''compatible_printers''),
    (''compatible_prints_condition'', Single ''compatible_prints_condition''),
    (''compatible_prints'', Single ''compatible_prints''),
    (''filament_vendor'', Single ''filament_vendor''),
    (''filament_minimal_purge_on_wipe_tower'', Single ''filament_minimal_purge_on_wipe_tower'')]"

definition PARAMETER_MAP_printer :: "(string \<times> target) list" where
  "PARAMETER_MAP_printer = [
    (''bed_custom_model'', Single ''bed_custom_model''),
    (''bed_custom_texture'', Single ''bed_custom_texture''),
    (''before_layer_gcode'', Single ''before_layer_change_gcode''),
    (''toolchange_gcode'', Single ''change_filament_gcode''),
    (''default_filament_profile'', Single ''default_filament_profile''),
    (''default_print_profile'', Single ''default_print_profile''),
    (''deretract_speed'', Single ''deretraction_speed''),
    (''gcode_flavor'', Single ''gcode_flavor''), (''inherits'', Single ''inherits''),
    (''layer_gcode'', Single ''layer_change_gcode''),
    (''feature_gcode'', Single ''change_extrusion_role_gcode''),
    (''end_gcode'', Single ''machine_end_gcode''),
    (''machine_max_acceleration_e'', Single ''machine_max_acceleration_e''),
    (''machine_max_acceleration_extruding'', Single ''machine_max_acceleration_extruding''),
    (''machine_max_acceleration_retracting'', Single ''machine_max_acceleration_retracting''),
    (''machine_max_acceleration_travel'', Single ''machine_max_acceleration_travel''),
    (''machine_max_acceleration_x'', Single ''machine_max_acceleration_x''),
    (''machine_max_acceleration_y'', Single ''machine_max_acceleration_y''),
    (''machine_max_acceleration_z'', Single ''machine_max_acceleration_z''),
    (''machine_max_feedrate_e'', Single ''machine_max_speed_e''),
    (''machine_max_feedrate_x'', Single ''machine_max_speed_x''),
    (''machine_max_feedrate_y'', Single ''machine_max_speed_y''),
    (''machine_max_feedrate_z'', Single ''machine_max_speed_z''),
    (''machine_max_jerk_e'', Single ''machine_max_jerk_e''),
    (''machine_max_jerk_x'', Single ''machine_max_jerk_x''),
    (''machine_max_jerk_y'', Single ''machine_max_jerk_y''),
    (''machine_max_jerk_z'', Single ''machine_max_jerk_z''),
    (''machine_min_extruding_rate'', Single ''machine_min_extruding_rate''),
    (''machine_min_travel_rate'', Single ''machine_min_travel_rate''),
    (''pause_print_gcode'', Single ''machine_pause_gcode''),
    (''start_gcode'', Single ''machine_start_gcode''),
    (''max_layer_height'', Single ''max_layer_height''),
    (''min_layer_height'', Single ''min_layer_height''),
    (''nozzle_diameter'', Single ''nozzle_diameter''), (''print_host'', Single ''print_host''),
    (''printer_notes'', Single ''printer_notes''), (''bed_shape'', Single ''printable_area''),
    (''max_print_height'', Single ''printable_height''),
    (''printer_technology'', Single ''printer_technology''),
    (''printer_variant'', Single ''printer_variant''),
    (''retract_before_wipe'', Single ''retract_before_wipe''),
    (''retract_length_toolchange'', Single ''retract_length_toolchange''),
    (''retract_restart_extra_toolchange'', Single ''retract_restart_extra_toolchange''),
    (''retract_restart_extra'', Single ''retract_restart_extra''),
    (''retract_layer_change'', Single ''retract_when_changing_layer''),
    (''retract_length'', Single ''retraction_length''), (''retract_lift'', Single ''z_hop''),
    (''retract_lift_top'', Single ''retract_lift_enforce''),
    (''retract_before_travel'', Single ''retraction_minimum_travel''),
    (''retract_speed'', Single ''retraction_speed''),
    (''silent_mode'', Single ''silent_mode''),
    (''single_extruder_multi_material'', Single ''single_extruder_multi_material''),
    (''thumbnails'', Single ''thumbnails''),
    (''thumbnails_format'', Single ''thumbnails_format''),
    (''template_custom_gcode'', Single ''template_custom_gcode''),
    (''use_firmware_retraction'', Single ''use_firmware_retraction''),
    (''use_relative_e_distances'', Single ''use_relative_e_distances''),
    (''wipe'', Single ''wipe'')]"

definition PARAMETER_MAP_physical_printer :: "(string \<times> target) list" where
  "PARAMETER_MAP_physical_printer = [
    (''host_type'', PassThrough), (''print_host'', PassThrough),
    (''printer_technology'', PassThrough), (''printhost_apikey'', PassThrough),
    (''printhost_authorization_type'', PassThrough), (''printhost_cafile'', PassThrough),
    (''printhost_password'', PassThrough), (''printhost_port'', PassThrough),
    (''printhost_ssl_ignore_revoke'', PassThrough), (''printhost_user'', PassThrough)]"

definition MULTIVALUE_PARAMS :: "(string \<times> string) list" where
  "MULTIVALUE_PARAMS = [
    (''max_layer_height'', ''single''), (''min_layer_height'', ''single''),
    (''deretract_speed'', ''single''), (''default_filament_profile'', ''single''),
    (''machine_max_acceleration_e'', ''array''),
    (''machine_max_acceleration_extruding'', ''array''),
    (''machine_max_acceleration_retracting'', ''array''),
    (''machine_max_acceleration_travel'', ''array''),
    (''machine_max_acceleration_x'', ''array''), (''machine_max_acceleration_y'', ''array''),
    (''machine_max_acceleration_z'', ''array''), (''machine_max_feedrate_e'', ''array''),
    (''machine_max_feedrate_x'', ''array''), (''machine_max_feedrate_y'', ''array''),
    (''machine_max_feedrate_z'', ''array''), (''machine_max_jerk_e'', ''array''),
    (''machine_max_jerk_x'', ''array''), (''machine_max_jerk_y'', ''array''),
    (''machine_max_jerk_z'', ''array''), (''machine_min_extruding_rate'', ''array''),
    (''machine_min_travel_rate'', ''array''), (''nozzle_diameter'', ''single''),
    (''bed_shape'', ''array''), (''retract_before_wipe'', ''single''),
    (''retract_length_toolchange'', ''single''),
    (''retract_restart_extra_toolchange'', ''single''),
    (''retract_restart_extra'', ''single''), (''retract_layer_change'', ''single''),
    (''retract_length'', ''single''), (''retract_lift'', ''single''),
    (''retract_before_travel'', ''single''), (''retract_speed'', ''single''),
    (''thumbnails'', ''array''), (''extruder_offset'', ''single''),
    (''retract_lift_above'', ''single''), (''retract_lift_below'', ''single''),
    (''wipe'', ''single'')]"

definition FILAMENT_TYPES :: "(string \<times> string) list" where
  "FILAMENT_TYPES = [
    (''PET'', ''PETG''), (''FLEX'', ''TPU''), (''NYLON'', ''PA'')]"

definition DEFAULT_MVS :: "(string \<times> string) list" where
  "DEFAULT_MVS = [
    (''PLA'', ''15''), (''PET'', ''10''), (''ABS'', ''12''), (''ASA'', ''12''),
    (''FLEX'', ''3.2''), (''NYLON'', ''12''), (''PVA'', ''12''), (''PC'', ''12''),
    (''PSU'', ''8''), (''HIPS'', ''8''), (''EDGE'', ''8''), (''NGEN'', ''8''), (''PP'', ''8''),
    (''PEI'', ''8''), (''PEEK'', ''8''), (''PEKK'', ''8''), (''POM'', ''8''),
    (''PVDF'', ''8''), (''SCAFF'', ''8'')]"

definition SPEED_SEQUENCE :: "string list" where
  "SPEED_SEQUENCE = [
    ''perimeter_speed'', ''external_perimeter_speed'', ''solid_infill_speed'',
    ''infill_speed'', ''small_perimeter_speed'', ''top_solid_infill_speed'',
    ''gap_fill_speed'', ''support_material_speed'', ''support_material_interface_speed'',
    ''bridge_speed'', ''first_layer_speed'', ''first_layer_infill_speed'']"

definition SPEED_PARAMS :: "(string \<times> string) list" where
  "SPEED_PARAMS = [
    (''perimeter_speed'', ''inner_wall_speed''),
    (''external_perimeter_speed'', ''outer_wall_speed''),
    (''small_perimeter_speed'', ''small_perimeter_speed''),
    (''solid_infill_speed'', ''internal_solid_infill_speed''),
    (''infill_speed'', ''sparse_infill_speed''),
    (''top_solid_infill_speed'', ''top_surface_speed''),
    (''gap_fill_speed'', ''gap_infill_speed''),
    (''support_material_speed'', ''support_speed''),
    (''support_material_interface_speed'', ''support_interface_speed''),
    (''bridge_speed'', ''bridge_speed''), (''first_layer_speed'', ''initial_layer_speed''),
    (''first_layer_infill_speed'', ''initial_layer_infill_speed'')]"

definition SEAM_POSITIONS :: "(string \<times> string) list" where
  "SEAM_POSITIONS = [
    (''cost'', ''nearest''), (''random'', ''random''), (''allrandom'', ''random''),
    (''aligned'', ''aligned''), (''contiguous'', ''aligned''), (''rear'', ''back''),
    (''nearest'', ''nearest'')]"

definition INFILL_TYPES :: "(string \<times> string) list" where
  "INFILL_TYPES = [
    (''3dhoneycomb'', ''3dhoneycomb''), (''adaptivecubic'', ''adaptivecubic''),
    (''alignedrectilinear'', ''alignedrectilinear''),
    (''archimedeanchords'', ''archimedeanchords''), (''concentric'', ''concentric''),
    (''concentricgapfill'', ''concentric''), (''cubic'', ''cubic''), (''grid'', ''grid''),
    (''gyroid'', ''gyroid''), (''hilbertcurve'', ''hilbertcurve''),
    (''honeycomb'', ''honeycomb''), (''lightning'', ''lightning''), (''line'', ''line''),
    (''monotonic'', ''monotonic''), (''monotonicgapfill'', ''monotonic''),
    (''monotoniclines'', ''monotonicline''), (''octagramspiral'', ''octagramspiral''),
    (''rectilinear'', ''zig-zag''), (''rectilineargapfill'', ''zig-zag''),
    (''rectiwithperimeter'', ''zig-zag''), (''sawtooth'', ''zig-zag''),
    (''scatteredrectilinear'', ''zig-zag''), (''smooth'', ''monotonic''),
    (''smoothhilbert'', ''hilbertcurve''), (''smoothtriple'', ''triangles''),
    (''stars'', ''tri-hexagon''), (''supportcubic'', ''supportcubic''),
    (''triangles'', ''triangles'')]"

definition SUPPORT_STYLES :: "(string \<times> string \<times> string) list" where
  "SUPPORT_STYLES = [
    (''grid'', ''normal'', ''grid''), (''snug'', ''normal'', ''snug''),
    (''tree'', ''tree'', ''default''), (''organic'', ''tree'', ''organic'')]"

definition SUPPORT_PATTERNS :: "string list" where
  "SUPPORT_PATTERNS = [
    ''rectilinear'', ''rectilinear-grid'', ''honeycomb'', ''lightning'', ''default'', ''hollow'']"

definition INTERFACE_PATTERNS :: "string list" where
  "INTERFACE_PATTERNS = [
    ''auto'', ''rectilinear'', ''concentric'', ''rectilinear_interlaced'', ''grid'']"

definition GCODE_FLAVORS :: "(string \<times> string) list" where
  "GCODE_FLAVORS = [
    (''klipper'', ''klipper''), (''mach3'', ''reprapfirmware''),
    (''machinekit'', ''reprapfirmware''), (''makerware'', ''reprapfirmware''),
    (''marlin'', ''marlin''), (''marlin2'', ''marlin2''),
    (''no-extrusion'', ''reprapfirmware''), (''repetier'', ''reprapfirmware''),
    (''reprap'', ''reprapfirmware''), (''reprapfirmware'', ''reprapfirmware''),
    (''sailfish'', ''reprapfirmware''), (''smoothie'', ''reprapfirmware''),
    (''teacup'', ''reprapfirmware''), (''sprinter'', ''reprapfirmware'')]"

definition HOST_TYPES :: "(string \<times> string) list" where
  "HOST_TYPES = [
    (''repetier'', ''repetier''), (''prusalink'', ''prusalink''),
    (''prusaconnect'', ''prusaconnect''), (''octoprint'', ''octoprint''),
    (''moonraker'', ''octoprint''), (''mks'', ''mks''), (''klipper'', ''octoprint''),
    (''flashair'', ''flashair''), (''duet'', ''duet''), (''astrobox'', ''astrobox'')]"

definition ZHOP_ENFORCEMENT :: "(string \<times> string) list" where
  "ZHOP_ENFORCEMENT = [
    (''All surfaces'', ''All Surfaces''), (''Not on top'', ''Bottom Only''),
    (''Only on top'', ''Top Only'')]"

definition THUMBNAIL_FORMAT :: "(string \<times> string) list" where
  "THUMBNAIL_FORMAT = [
    (''PNG'', ''PNG''), (''JPG'', ''JPG''), (''QOI'', ''QOI''), (''BIQU'', ''BTT_TFT'')]"

text \<open>\<^verbatim>\<open>PARAMETER_MAP\<close> itself, in the order of the source's dictionary literal.\<close>

definition PARAMETER_MAP :: "(string \<times> (string \<times> target) list) list" where
  "PARAMETER_MAP = [
    (''print'', PARAMETER_MAP_print), (''filament'', PARAMETER_MAP_filament),
    (''printer'', PARAMETER_MAP_printer), (''physical_printer'', PARAMETER_MAP_physical_printer)]"

definition ORCA_SLICER_VERSION :: string where
  "ORCA_SLICER_VERSION = ''1.6.0.0''"

section \<open>Kind detection\<close>

text \<open>\<^verbatim>\<open>sum(1 for p in source_ini if p in params)\<close>.\<close>

definition count_matching :: "(string, 'v) pydict \<Rightarrow> (string, target) pydict \<Rightarrow> nat" where
  "count_matching source_ini params =
     length (filter (\<lambda>p. dict_has p params) (map fst source_ini))"

text \<open>
  \<^verbatim>\<open>max(iterable, key=f)\<close>: the first element whose key is maximal; \<^const>\<open>None\<close> stands
  for the \<^verbatim>\<open>ValueError\<close> on an empty iterable.
\<close>

primrec max_from :: "('a \<Rightarrow> nat) \<Rightarrow> 'a \<Rightarrow> 'a list \<Rightarrow> 'a" where
  "max_from f best [] = best"
| "max_from f best (x # xs) = max_from f (if f best < f x then x else best) xs"

definition py_max :: "('a \<Rightarrow> nat) \<Rightarrow> 'a list \<Rightarrow> 'a option" where
  "py_max f xs = (case xs of [] \<Rightarrow> None | x # rest \<Rightarrow> Some (max_from f x rest))"

text \<open>
  \<^verbatim>\<open>detect_ini_type\<close> (lines 777-794). \<^verbatim>\<open>type_counts\<close> is the dictionary built by the
  loop, here the list of its items; the result \<^const>\<open>None\<close> is Python's \<^verbatim>\<open>None\<close>.
\<close>

definition type_counts_of :: "(string, string) pydict \<Rightarrow> (string \<times> nat) list" where
  "type_counts_of source_ini =
     map (\<lambda>(ini_type, params). (ini_type, count_matching source_ini params))
       (filter (\<lambda>(ini_type, params). ini_type \<noteq> ''physical_printer'') PARAMETER_MAP)"

definition detect_ini_type :: "(string, string) pydict \<Rightarrow> string option" where
  "detect_ini_type source_ini =
     (if dict_has ''ini_type'' source_ini
      then map_option py_lower (dict_get source_ini ''ini_type'')
      else let type_counts = type_counts_of source_ini
           in if list_all (\<lambda>(t, count). count < 10) type_counts then None
              else map_option fst (py_max snd type_counts))"

section \<open>Phrases derived from booleans\<close>

text \<open>\<^verbatim>\<open>evaluate_print_order\<close> (lines 681-691), with its unreachable last \<^verbatim>\<open>return\<close>.\<close>

definition evaluate_print_order :: "bool \<Rightarrow> bool \<Rightarrow> string" where
  "evaluate_print_order external_perimeters_first infill_first =
     (if \<not> external_perimeters_first \<and> \<not> infill_first then ''inner wall/outer wall/infill''
      else if external_perimeters_first \<and> \<not> infill_first then ''outer wall/inner wall/infill''
      else if \<not> external_perimeters_first \<and> infill_first then ''infill/inner wall/outer wall''
      else if external_perimeters_first \<and> infill_first then ''infill/outer wall/inner wall''
      else ''inner wall/outer wall/infill'')"

text \<open>
  \<^verbatim>\<open>evaluate_ironing_type\<close> (lines 693-697): \<^verbatim>\<open>None\<close> and the empty string are both
  false in Python.
\<close>

definition evaluate_ironing_type :: "bool \<Rightarrow> string option \<Rightarrow> string" where
  "evaluate_ironing_type ironing ironing_type =
     (if ironing
      then (case ironing_type of None \<Rightarrow> ''no ironing''
            | Some t \<Rightarrow> if t = [] then ''no ironing'' else t)
      else ''no ironing'')"

section \<open>Kind detection: proofs\<close>

text \<open>
  The spec's words for the score of a Kind: how many of the mapping's keys appear in that
  Kind's parameter set.
\<close>

definition key_overlap :: "(string, 'v) pydict \<Rightarrow> (string, target) pydict \<Rightarrow> nat" where
  "key_overlap source_ini params = card (set (map fst source_ini) \<inter> set (map fst params))"

definition kind_score :: "(string, 'v) pydict \<Rightarrow> string \<Rightarrow> nat" where
  "kind_score source_ini kind = key_overlap source_ini (dict_get_default PARAMETER_MAP kind [])"

lemma kind_score_simps:
  "kind_score source_ini ''print'' = key_overlap source_ini PARAMETER_MAP_print"
  "kind_score source_ini ''filament'' = key_overlap source_ini PARAMETER_MAP_filament"
  "kind_score source_ini ''printer'' = key_overlap source_ini PARAMETER_MAP_printer"
  by (simp_all add: kind_score_def dict_get_default_def PARAMETER_MAP_def)

lemma count_matching_overlap:
  assumes "distinct (map fst source_ini)"
  shows "count_matching source_ini params = key_overlap source_ini params"
proof -
  have "length (filter (\<lambda>p. p \<in> set (map fst params)) (map fst source_ini))
        = card ({p. p \<in> set (map fst params)} \<inter> set (map fst source_ini))"
    using assms by (rule distinct_length_filter)
  also have "{p. p \<in> set (map fst params)} \<inter> set (map fst source_ini)
        = set (map fst source_ini) \<inter> set (map fst params)"
    by blast
  finally show ?thesis
    by (simp add: count_matching_def key_overlap_def dict_has_def)
qed

lemma type_counts_of_eq:
  "type_counts_of source_ini =
     [(''print'', count_matching source_ini PARAMETER_MAP_print),
      (''filament'', count_matching source_ini PARAMETER_MAP_filament),
      (''printer'', count_matching source_ini PARAMETER_MAP_printer)]"
  by (simp add: type_counts_of_def PARAMETER_MAP_def)

lemma detect_ini_type_unmarked:
  assumes "\<not> dict_has ''ini_type'' source_ini"
  shows "detect_ini_type source_ini =
     (let cp = count_matching source_ini PARAMETER_MAP_print;
          cf = count_matching source_ini PARAMETER_MAP_filament;
          cr = count_matching source_ini PARAMETER_MAP_printer
      in if cp < 10 \<and> cf < 10 \<and> cr < 10 then None
         else if cf \<le> cp \<and> cr \<le> cp then Some ''print''
         else if cr \<le> cf then Some ''filament''
         else Some ''printer'')"
  using assms
  by (simp add: detect_ini_type_def type_counts_of_eq py_max_def Let_def not_less)

lemma detect_ini_type_marked:
  assumes "dict_get source_ini ''ini_type'' = Some v"
  shows "detect_ini_type source_ini = Some (py_lower v)"
proof -
  have "dict_has ''ini_type'' source_ini"
    using assms by (auto simp: dict_has_def dict_get_def dest: map_of_SomeD intro: rev_image_eqI)
  then show ?thesis using assms by (simp add: detect_ini_type_def)
qed

lemma detect_ini_type_scores:
  assumes "\<not> dict_has ''ini_type'' source_ini"
    and "distinct (map fst source_ini)"
  shows "detect_ini_type source_ini =
     (if kind_score source_ini ''print'' < 10 \<and> kind_score source_ini ''filament'' < 10
          \<and> kind_score source_ini ''printer'' < 10 then None
      else if kind_score source_ini ''filament'' \<le> kind_score source_ini ''print''
            \<and> kind_score source_ini ''printer'' \<le> kind_score source_ini ''print''
      then Some ''print''
      else if kind_score source_ini ''printer'' \<le> kind_score source_ini ''filament''
      then Some ''filament''
      else Some ''printer'')"
  using detect_ini_type_unmarked [OF assms(1)] count_matching_overlap [OF assms(2)]
  by (simp add: kind_score_simps Let_def)






text \<open>
  Claim C10. Without an explicit marker, Kinds that tie on the highest score (at least 10)
  are resolved in the fixed order print, filament, printer: print wins when no score is
  higher than its own, filament wins when it beats print and printer does not beat it,
  printer wins only when it beats both. The \<^verbatim>\<open>physical_printer\<close> Kind is not scored, so it
  is never the result of counting; an explicit \<^verbatim>\<open>ini_type\<close> marker is returned in lower
  case whatever it is, \<^verbatim>\<open>physical_printer\<close> included.
\<close>

theorem detect_ini_type_tie_break:
  assumes "distinct (map fst source_ini)"
  shows "(\<not> dict_has ''ini_type'' source_ini \<longrightarrow>
            detect_ini_type source_ini \<noteq> Some ''physical_printer''
          \<and> (10 \<le> kind_score source_ini ''print''
              \<and> kind_score source_ini ''filament'' \<le> kind_score source_ini ''print''
              \<and> kind_score source_ini ''printer'' \<le> kind_score source_ini ''print''
              \<longrightarrow> detect_ini_type source_ini = Some ''print'')
          \<and> (10 \<le> kind_score source_ini ''filament''
              \<and> kind_score source_ini ''print'' < kind_score source_ini ''filament''
              \<and> kind_score source_ini ''printer'' \<le> kind_score source_ini ''filament''
              \<longrightarrow> detect_ini_type source_ini = Some ''filament'')
          \<and> (10 \<le> kind_score source_ini ''printer''
              \<and> kind_score source_ini ''print'' < kind_score source_ini ''printer''
              \<and> kind_score source_ini ''filament'' < kind_score source_ini ''printer''
              \<longrightarrow> detect_ini_type source_ini = Some ''printer''))
       \<and> (\<forall>v. dict_get source_ini ''ini_type'' = Some v \<longrightarrow>
              detect_ini_type source_ini = Some (py_lower v))"
proof -
  have marked: "\<forall>v. dict_get source_ini ''ini_type'' = Some v \<longrightarrow>
              detect_ini_type source_ini = Some (py_lower v)"
    by (simp add: detect_ini_type_marked)
  show ?thesis
  proof (cases "dict_has ''ini_type'' source_ini")
    case True
    then show ?thesis using marked by simp
  next
    case False
    then have none: "dict_get source_ini ''ini_type'' = None"
      by (simp add: dict_has_def dict_get_def map_of_eq_None_iff)
    have scored: "detect_ini_type source_ini \<noteq> Some ''physical_printer''
          \<and> (10 \<le> kind_score source_ini ''print''
              \<and> kind_score source_ini ''filament'' \<le> kind_score source_ini ''print''
              \<and> kind_score source_ini ''printer'' \<le> kind_score source_ini ''print''
              \<longrightarrow> detect_ini_type source_ini = Some ''print'')
          \<and> (10 \<le> kind_score source_ini ''filament''
              \<and> kind_score source_ini ''print'' < kind_score source_ini ''filament''
              \<and> kind_score source_ini ''printer'' \<le> kind_score source_ini ''filament''
              \<longrightarrow> detect_ini_type source_ini = Some ''filament'')
          \<and> (10 \<le> kind_score source_ini ''printer''
              \<and> kind_score source_ini ''print'' < kind_score source_ini ''printer''
              \<and> kind_score source_ini ''filament'' < kind_score source_ini ''printer''
              \<longrightarrow> detect_ini_type source_ini = Some ''printer'')"
      unfolding detect_ini_type_scores [OF False assms]
      by (auto split: if_splits)
    show ?thesis using scored none by simp
  qed
qed

definition tied_keys_doc :: "(string, string) pydict" where
  "tied_keys_doc = [
     (''compatible_printers'', ''''), (''compatible_printers_condition'', ''''),
     (''extrusion_multiplier'', ''1''), (''inherits'', ''''),
     (''bed_temperature'', ''60''), (''bridge_fan_speed'', ''100''),
     (''chamber_temperature'', ''0''), (''disable_fan_first_layers'', ''1''),
     (''fan_always_on'', ''1''), (''fan_below_layer_time'', ''60''),
     (''arc_fitting'', ''0''), (''bottom_solid_layers'', ''3''),
     (''bridge_acceleration'', ''0''), (''bridge_angle'', ''0''),
     (''brim_ears'', ''0''), (''brim_width'', ''0'')]"

theorem detect_ini_type_tie_break_witness:
  "distinct (map fst tied_keys_doc)
   \<and> \<not> dict_has ''ini_type'' tied_keys_doc
   \<and> kind_score tied_keys_doc ''print'' = 10
   \<and> kind_score tied_keys_doc ''filament'' = 10
   \<and> kind_score tied_keys_doc ''printer'' = 1
   \<and> detect_ini_type tied_keys_doc = Some ''print''
   \<and> dict_get [(''ini_type'', ''Physical_Printer'')] ''ini_type'' = Some ''Physical_Printer''
   \<and> detect_ini_type [(''ini_type'', ''Physical_Printer'')] = Some ''physical_printer''"
proof -
  have h1: "\<not> dict_has ''ini_type'' tied_keys_doc"
    by (simp add: dict_has_def tied_keys_doc_def)
  have h2: "distinct (map fst tied_keys_doc)"
    by (simp add: tied_keys_doc_def)
  have cf: "kind_score tied_keys_doc ''filament'' = 10"
    unfolding kind_score_simps count_matching_overlap [OF h2, symmetric]
    by (simp add: count_matching_def dict_has_def tied_keys_doc_def PARAMETER_MAP_filament_def)
  have cp: "kind_score tied_keys_doc ''print'' = 10"
    unfolding kind_score_simps count_matching_overlap [OF h2, symmetric]
    by (simp add: count_matching_def dict_has_def tied_keys_doc_def PARAMETER_MAP_print_def)
  have cr: "kind_score tied_keys_doc ''printer'' = 1"
    unfolding kind_score_simps count_matching_overlap [OF h2, symmetric]
    by (simp add: count_matching_def dict_has_def tied_keys_doc_def PARAMETER_MAP_printer_def)
  have g: "dict_get [(''ini_type'', ''Physical_Printer'')] ''ini_type'' = Some ''Physical_Printer''"
    by (simp add: dict_get_def)
  have low: "py_lower ''Physical_Printer'' = ''physical_printer''"
    by (simp add: py_lower_def lower_char_def upper_chars_def lower_chars_def)
  have m: "detect_ini_type [(''ini_type'', ''Physical_Printer'')] = Some ''physical_printer''"
    using detect_ini_type_tie_break [of "[(''ini_type'', ''Physical_Printer'')]"] g low by simp
  show ?thesis
    using detect_ini_type_tie_break [OF h2] h1 h2 cf cp cr g m by simp
qed

section \<open>Print order\<close>

text \<open>
  Claim C7. The print-order phrase is one of four fixed orderings, selected by the two
  booleans \<^verbatim>\<open>external_perimeters_first\<close> and \<^verbatim>\<open>infill_first\<close>; there is no fifth case.
\<close>

theorem evaluate_print_order_four_cases:
  "evaluate_print_order False False = ''inner wall/outer wall/infill''
   \<and> evaluate_print_order True False = ''outer wall/inner wall/infill''
   \<and> evaluate_print_order False True = ''infill/inner wall/outer wall''
   \<and> evaluate_print_order True True = ''infill/outer wall/inner wall''
   \<and> evaluate_print_order external_perimeters_first infill_first \<in>
        {''inner wall/outer wall/infill'', ''outer wall/inner wall/infill'',
         ''infill/inner wall/outer wall'', ''infill/outer wall/inner wall''}"
  by (simp add: evaluate_print_order_def)

end
